theory Spec2Isabelle
  imports Complex_Main
begin

section \<open>Values, arrays and exceptions\<close>

text \<open>
  The script \<^verbatim>\<open>generate_graph.py\<close> computes with one-dimensional numpy arrays.
  An array is modelled as the list of its entries, an entry as a real number: arithmetic
  is exact, so rounding and overflow of float64 are left out. What float64 adds at the
  two places where the script divides and takes a square root is kept: a division by zero
  and the root of a negative number raise nothing in numpy (a RuntimeWarning is printed),
  they return \<^verbatim>\<open>nan\<close> or \<^verbatim>\<open>inf\<close>. The sign of a zero is not modelled.

  Exact arithmetic and float64 can disagree on whether a denominator is zero. A constant
  series of value \<open>0.1\<close> has variance 0 here, while float64 rounds its mean and leaves
  a variance near \<open>1e-34\<close>, so that the script returns a finite number. On a constant
  series of integer value with the default weights every float64 operation up to the
  division is exact, and the script and this model both divide by zero. What is stated
  below about a zero denominator is stated for such series.
\<close>

type_synonym ndarray = "real list"

datatype float64 = Finite real | PosInf | NegInf | NaN

text \<open>
  The exceptions the script and the library calls it makes can raise. Each constructor is
  one \<^verbatim>\<open>raise\<close> site:
  \<^item> \<open>TypeError_shapes_differ\<close>: \<^verbatim>\<open>np.average\<close>, "Axis must be specified when shapes of a
    and weights differ.";
  \<^item> \<open>ZeroDivisionError_weights\<close>: \<^verbatim>\<open>np.average\<close>, "Weights sum to zero, can't be
    normalized";
  \<^item> \<open>ValueError_broadcast\<close>: an elementwise operation, "operands could not be broadcast
    together";
  \<^item> \<open>IndexError_out_of_bounds\<close>: indexing an array or a list past its end;
  \<^item> \<open>TypeError_None_operand\<close>: arithmetic on \<^verbatim>\<open>None\<close>;
  \<^item> \<open>ValueError_polyfit_deg\<close>, \<open>TypeError_polyfit_empty\<close>, \<open>TypeError_polyfit_length\<close>:
    the argument checks of \<^verbatim>\<open>np.polyfit\<close>;
  \<^item> \<open>LinAlgError_lstsq\<close>: \<^verbatim>\<open>np.linalg.lstsq\<close> inside \<^verbatim>\<open>np.polyfit\<close>, "SVD did not
    converge in Linear Least Squares";
  \<^item> \<open>RuntimeError_curve_fit\<close>: \<^verbatim>\<open>scipy.optimize.curve_fit\<close>, "Optimal parameters not
    found";
  \<^item> \<open>TypeError_isnan\<close>: \<^verbatim>\<open>np.isnan\<close> applied to a column label.
\<close>

datatype py_error =
    TypeError_shapes_differ
  | ZeroDivisionError_weights
  | ValueError_broadcast
  | IndexError_out_of_bounds
  | TypeError_None_operand
  | ValueError_polyfit_deg
  | TypeError_polyfit_empty
  | TypeError_polyfit_length
  | LinAlgError_lstsq
  | RuntimeError_curve_fit
  | TypeError_isnan

text \<open>A call either raises (\<open>Inl\<close>) or returns (\<open>Inr\<close>); \<open>bind_result\<close> is the
  sequencing of two statements, the second skipped when the first raises.\<close>

definition bind_result :: "py_error + 'a \<Rightarrow> ('a \<Rightarrow> py_error + 'b) \<Rightarrow> py_error + 'b" where
  "bind_result m f = (case m of Inl e \<Rightarrow> Inl e | Inr v \<Rightarrow> f v)"

subsection \<open>The numpy operations the script calls\<close>

text \<open>\<^verbatim>\<open>a / b\<close> on float64 scalars, the numerator finite.\<close>

fun np_divide :: "real \<Rightarrow> float64 \<Rightarrow> float64" where
  "np_divide a (Finite b) =
     (if b = 0 then (if a = 0 then NaN else if 0 < a then PosInf else NegInf)
      else Finite (a / b))"
| "np_divide a PosInf = Finite 0"
| "np_divide a NegInf = Finite 0"
| "np_divide a NaN = NaN"

text \<open>\<^verbatim>\<open>np.sqrt\<close> on a float64 scalar.\<close>

definition np_sqrt :: "real \<Rightarrow> float64" where
  "np_sqrt a = (if a < 0 then NaN else Finite (sqrt a))"

text \<open>\<^verbatim>\<open>1 - v\<close> on a float64 scalar.\<close>

fun one_minus :: "float64 \<Rightarrow> float64" where
  "one_minus (Finite r) = Finite (1 - r)"
| "one_minus PosInf = NegInf"
| "one_minus NegInf = PosInf"
| "one_minus NaN = NaN"


text \<open>
  An elementwise binary operation on two one-dimensional arrays, with numpy's
  broadcasting: equal lengths pair up, an array of length one is stretched to the other's
  length, anything else raises ValueError.
\<close>

definition np_binop :: "(real \<Rightarrow> real \<Rightarrow> real) \<Rightarrow> ndarray \<Rightarrow> ndarray \<Rightarrow> py_error + ndarray" where
  "np_binop f a b =
     (if length a = length b then Inr (map2 f a b)
      else if length a = 1 then Inr (map (f (hd a)) b)
      else if length b = 1 then Inr (map (\<lambda>v. f v (hd b)) a)
      else Inl ValueError_broadcast)"

definition np_subtract :: "ndarray \<Rightarrow> ndarray \<Rightarrow> py_error + ndarray" where
  "np_subtract a b = np_binop (\<lambda>u v. u - v) a b"

definition np_multiply :: "ndarray \<Rightarrow> ndarray \<Rightarrow> py_error + ndarray" where
  "np_multiply a b = np_binop (\<lambda>u v. u * v) a b"

text \<open>\<^verbatim>\<open>a - s\<close> for a scalar \<open>s\<close>, and \<^verbatim>\<open>a ** 2\<close>.\<close>

definition np_sub_scalar :: "ndarray \<Rightarrow> real \<Rightarrow> ndarray" where
  "np_sub_scalar a s = map (\<lambda>v. v - s) a"

definition np_square :: "ndarray \<Rightarrow> ndarray" where
  "np_square a = map (\<lambda>v. v ^ 2) a"

definition np_sum :: "ndarray \<Rightarrow> real" where
  "np_sum a = sum_list a"

text \<open>
  \<^verbatim>\<open>np.average(a, weights=w)\<close> with \<open>w\<close> given and no axis: the shapes are compared
  first, then the weights' sum is tested against zero, then the weighted sum is divided
  by it.
\<close>

definition np_average :: "ndarray \<Rightarrow> ndarray \<Rightarrow> py_error + real" where
  "np_average a w =
     (if length a \<noteq> length w then Inl TypeError_shapes_differ
      else if np_sum w = 0 then Inl ZeroDivisionError_weights
      else Inr (np_sum (map2 (\<lambda>u v. u * v) a w) / np_sum w))"

section \<open>The statistics functions\<close>

text \<open>
  \<^verbatim>\<open>compute_weights(X, y, weight_func=None)\<close>: \<^verbatim>\<open>None\<close> without a weight function,
  else the array of \<^verbatim>\<open>weight_func(X[i], y[i])\<close> for \<^verbatim>\<open>i in range(len(X))\<close>; reading
  \<^verbatim>\<open>y[i]\<close> past the end of \<open>y\<close> raises IndexError.
\<close>

definition compute_weights ::
  "ndarray \<Rightarrow> ndarray \<Rightarrow> (real \<Rightarrow> real \<Rightarrow> real) option \<Rightarrow> py_error + ndarray option" where
  "compute_weights X y weight_func =
     (case weight_func of
        None \<Rightarrow> Inr None
      | Some wfun \<Rightarrow>
          if length y < length X then Inl IndexError_out_of_bounds
          else Inr (Some (map (\<lambda>i. wfun (X ! i) (y ! i)) [0..<length X])))"

text \<open>\<^verbatim>\<open>[1] * len(X)\<close>, the weights used when none are given.\<close>

definition ones :: "ndarray \<Rightarrow> ndarray" where
  "ones X = replicate (length X) 1"

text \<open>
  \<^verbatim>\<open>coefficient_of_determination(X, y, trendline, weight_func=None)\<close>. The trendline is
  called once, on the whole array.
\<close>

definition coefficient_of_determination ::
  "ndarray \<Rightarrow> ndarray \<Rightarrow> (ndarray \<Rightarrow> ndarray) \<Rightarrow> (real \<Rightarrow> real \<Rightarrow> real) option
     \<Rightarrow> py_error + float64" where
  "coefficient_of_determination X y trendline weight_func =
     bind_result
       (if weight_func \<noteq> None
        then bind_result (compute_weights X y weight_func)
               (\<lambda>w. case w of None \<Rightarrow> Inl TypeError_None_operand | Some ws \<Rightarrow> Inr ws)
        else Inr (ones X))
       (\<lambda>weights.
          let y_regression = trendline X in
          bind_result (np_average y weights) (\<lambda>mean.
          bind_result (np_multiply weights (np_square (np_sub_scalar y mean))) (\<lambda>t.
          let tss = np_sum t in
          bind_result (np_subtract y_regression y) (\<lambda>d.
          bind_result (np_multiply weights (np_square d)) (\<lambda>r.
          let rss = np_sum r in
          Inr (one_minus (np_divide rss (Finite tss))))))))"

text \<open>\<^verbatim>\<open>covariance(X, y, weights=None)\<close>.\<close>

definition covariance :: "ndarray \<Rightarrow> ndarray \<Rightarrow> ndarray option \<Rightarrow> py_error + real" where
  "covariance X y weights =
     (let w = (case weights of None \<Rightarrow> ones X | Some ws \<Rightarrow> ws) in
      bind_result (np_average X w) (\<lambda>mx.
      bind_result (np_average y w) (\<lambda>my.
      bind_result (np_multiply (np_sub_scalar X mx) (np_sub_scalar y my)) (\<lambda>p.
      np_average p w))))"

text \<open>\<^verbatim>\<open>correlation_coefficient(X, y, weights=None)\<close>.\<close>

definition correlation_coefficient ::
  "ndarray \<Rightarrow> ndarray \<Rightarrow> ndarray option \<Rightarrow> py_error + float64" where
  "correlation_coefficient X y weights =
     (let w = (case weights of None \<Rightarrow> ones X | Some ws \<Rightarrow> ws) in
      bind_result (covariance X y (Some w)) (\<lambda>cxy.
      bind_result (covariance X X (Some w)) (\<lambda>cxx.
      bind_result (covariance y y (Some w)) (\<lambda>cyy.
      Inr (np_divide cxy (np_sqrt (cxx * cyy)))))))"

section \<open>The trendline fitters\<close>

text \<open>
  \<^verbatim>\<open>np.polyfit(x, y, deg, w=weights)\<close>. Its argument checks, in numpy's order: a negative
  degree raises ValueError, an empty \<open>x\<close> raises TypeError, \<open>x\<close> and \<open>y\<close> of different
  lengths raise TypeError, weights of another length than \<open>y\<close> raise TypeError. After the
  checks numpy solves the least-squares system with \<^verbatim>\<open>lstsq\<close>, which returns the
  minimum-norm solution also when the system is rank deficient (fewer points than
  coefficients): numpy then prints a RankWarning and returns the coefficients. The
  solver raises LinAlgError when its decomposition does not converge, as on a system
  that the column scaling of \<^verbatim>\<open>np.polyfit\<close> has filled with \<^verbatim>\<open>nan\<close> (an \<open>x\<close> of zeros).
  The solver is the parameter \<open>lstsq\<close>; it raises or returns the coefficients, highest
  power first.
\<close>

type_synonym lstsq_solver =
  "ndarray \<Rightarrow> ndarray \<Rightarrow> nat \<Rightarrow> ndarray option \<Rightarrow> py_error + ndarray"

definition np_polyfit ::
  "lstsq_solver \<Rightarrow> ndarray \<Rightarrow> ndarray \<Rightarrow> int \<Rightarrow> ndarray option \<Rightarrow> py_error + ndarray" where
  "np_polyfit lstsq x y deg w =
     (if deg < 0 then Inl ValueError_polyfit_deg
      else if x = [] then Inl TypeError_polyfit_empty
      else if length x \<noteq> length y then Inl TypeError_polyfit_length
      else case w of
             None \<Rightarrow> lstsq x y (nat deg) None
           | Some ws \<Rightarrow>
               if length ws \<noteq> length y then Inl TypeError_polyfit_length
               else lstsq x y (nat deg) (Some ws))"

text \<open>\<^verbatim>\<open>np.poly1d(c)\<close> called on an array: Horner's rule at each entry.\<close>

definition np_poly1d :: "ndarray \<Rightarrow> ndarray \<Rightarrow> ndarray" where
  "np_poly1d c xs = map (\<lambda>x. foldl (\<lambda>acc pv. acc * x + pv) 0 c) xs"

text \<open>\<^verbatim>\<open>_generate_trendline_metrics(X, y, trendline, weight_func=None)\<close>.\<close>

definition generate_trendline_metrics ::
  "ndarray \<Rightarrow> ndarray \<Rightarrow> (ndarray \<Rightarrow> ndarray) \<Rightarrow> (real \<Rightarrow> real \<Rightarrow> real) option
     \<Rightarrow> py_error + (float64 \<times> float64)" where
  "generate_trendline_metrics X y trendline weight_func =
     bind_result (compute_weights X y weight_func) (\<lambda>weights.
     bind_result (correlation_coefficient X y weights) (\<lambda>p_value.
     bind_result (coefficient_of_determination X y trendline weight_func) (\<lambda>r_squared.
     Inr (p_value, r_squared))))"

text \<open>\<^verbatim>\<open>generate_polynomial_trendline(X, y, weight_func=None, degree=1)\<close>.\<close>

definition generate_polynomial_trendline ::
  "lstsq_solver \<Rightarrow> ndarray \<Rightarrow> ndarray \<Rightarrow> (real \<Rightarrow> real \<Rightarrow> real) option \<Rightarrow> int
     \<Rightarrow> py_error + ((ndarray \<Rightarrow> ndarray) \<times> float64 \<times> float64)" where
  "generate_polynomial_trendline lstsq X y weight_func degree =
     bind_result (compute_weights X y weight_func) (\<lambda>weights.
     bind_result (np_polyfit lstsq X y degree weights) (\<lambda>coeffs.
     let trendline = np_poly1d coeffs in
     bind_result (generate_trendline_metrics X y trendline weight_func) (\<lambda>(p_value, r_squared).
     Inr (trendline, p_value, r_squared))))"

text \<open>
  \<^verbatim>\<open>scipy.optimize.curve_fit(f, X, y, sigma=weights, absolute_sigma=...)\<close> is a parameter:
  it returns the optimal parameters or raises (RuntimeError when the least-squares
  minimisation fails). A model function takes the array and the parameters.
\<close>

type_synonym model_fn = "ndarray \<Rightarrow> real list \<Rightarrow> ndarray"

type_synonym curve_fitter =
  "model_fn \<Rightarrow> ndarray \<Rightarrow> ndarray \<Rightarrow> ndarray option \<Rightarrow> bool \<Rightarrow> py_error + real list"

text \<open>\<^verbatim>\<open>generate_curve_fit(X, y, f, weight_func=None)\<close>.\<close>

definition generate_curve_fit ::
  "curve_fitter \<Rightarrow> ndarray \<Rightarrow> ndarray \<Rightarrow> model_fn \<Rightarrow> (real \<Rightarrow> real \<Rightarrow> real) option
     \<Rightarrow> py_error + ((ndarray \<Rightarrow> ndarray) \<times> float64 \<times> float64)" where
  "generate_curve_fit curve_fit X y f weight_func =
     bind_result (compute_weights X y weight_func) (\<lambda>weights.
     bind_result (curve_fit f X y weights (weight_func \<noteq> None)) (\<lambda>popt.
     let trendline = (\<lambda>x. f x popt) in
     bind_result (generate_trendline_metrics X y trendline weight_func) (\<lambda>(p_value, r_squared).
     Inr (trendline, p_value, r_squared))))"

section \<open>The input path check\<close>

text \<open>
  What \<^verbatim>\<open>Path(args.input)\<close> names on disk. \<^verbatim>\<open>is_file()\<close> holds of a regular file only,
  \<^verbatim>\<open>exists()\<close> of anything that is there.
\<close>

datatype path_status = Missing | Regular_file | Directory

definition is_file :: "path_status \<Rightarrow> bool" where
  "is_file p = (p = Regular_file)"

definition path_exists :: "path_status \<Rightarrow> bool" where
  "path_exists p = (p \<noteq> Missing)"

text \<open>
  Lines 26 to 29: the messages logged with \<^verbatim>\<open>logger.error\<close> and the code the process
  exits with, \<open>None\<close> when the script goes on to \<^verbatim>\<open>pd.read_csv\<close>.
\<close>

definition check_input :: "path_status \<Rightarrow> string list \<times> int option" where
  "check_input input_path =
     (if \<not> (is_file input_path \<or> path_exists input_path)
      then ([''The specified input is not a file or does not exist!''], Some 1)
      else ([], None))"

section \<open>The aggregation loop\<close>

text \<open>
  A row of the table carries its two coordinates and, for every column name, the value of
  that column: a number, or \<open>None\<close> for \<^verbatim>\<open>nan\<close>. Coordinates are numbers, and every
  requested column is there (pandas raises KeyError otherwise).
\<close>

datatype point = Point (px: real) (py: real)

datatype row = Row (row_lon: real) (row_lat: real) (row_vals: "string \<Rightarrow> real option")

type_synonym dataframe = "row list"

text \<open>\<^verbatim>\<open>df[(df[longitude_column] == point.x) & (df[latitude_column] == point.y)]\<close>.\<close>

definition select_rows :: "dataframe \<Rightarrow> point \<Rightarrow> dataframe" where
  "select_rows df point = filter (\<lambda>r. row_lon r = px point \<and> row_lat r = py point) df"

text \<open>\<^verbatim>\<open>sum(x if not np.isnan(x) else 0 for x in columns[column])\<close>.\<close>

definition nan_sum :: "real option list \<Rightarrow> real" where
  "nan_sum vs = sum_list (map (\<lambda>x. case x of None \<Rightarrow> 0 | Some v \<Rightarrow> v) vs)"

text \<open>
  A dict is an association list in insertion order. A dict comprehension over the column
  names keeps the first occurrence of each name.
\<close>

definition dict_keys :: "string list \<Rightarrow> string list" where
  "dict_keys y_columns = rev (remdups (rev y_columns))"

text \<open>\<^verbatim>\<open>total_v[column] += s\<close> and \<^verbatim>\<open>Y[column].append(v)\<close>.\<close>

definition dict_add :: "(string \<times> real) list \<Rightarrow> string \<Rightarrow> real \<Rightarrow> (string \<times> real) list" where
  "dict_add total_v column s = map (\<lambda>(c, t). if c = column then (c, t + s) else (c, t)) total_v"

definition dict_append ::
  "(string \<times> real list) list \<Rightarrow> string \<Rightarrow> real \<Rightarrow> (string \<times> real list) list" where
  "dict_append Y column v = map (\<lambda>(c, l). if c = column then (c, l @ [v]) else (c, l)) Y"

text \<open>A loop whose body can raise: the first exception ends it.\<close>

fun fold_result :: "('s \<Rightarrow> 'a \<Rightarrow> py_error + 's) \<Rightarrow> 's \<Rightarrow> 'a list \<Rightarrow> py_error + 's" where
  "fold_result f s [] = Inr s"
| "fold_result f s (a # as) = bind_result (f s a) (\<lambda>s'. fold_result f s' as)"

text \<open>
  The body of \<^verbatim>\<open>for point in chunks[i][j]\<close> (lines 124 to 126). With a column name
  given twice, \<^verbatim>\<open>columns[column]\<close> is a frame, iterating it yields labels, and
  \<^verbatim>\<open>np.isnan\<close> raises TypeError on the first of them.
\<close>

definition add_point ::
  "dataframe \<Rightarrow> string list \<Rightarrow> (string \<times> real) list \<Rightarrow> point \<Rightarrow> py_error + (string \<times> real) list" where
  "add_point df y_columns total_v point =
     (let columns = select_rows df point in
      if \<not> distinct y_columns then Inl TypeError_isnan
      else Inr (foldl (\<lambda>tv column. dict_add tv column (nan_sum (map (\<lambda>r. row_vals r column) columns)))
                  total_v y_columns))"

text \<open>\<^verbatim>\<open>chunks[i][j]\<close>.\<close>

definition chunk_at :: "point list list list \<Rightarrow> nat \<Rightarrow> nat \<Rightarrow> py_error + point list" where
  "chunk_at chunks i j =
     (if i < length chunks \<and> j < length (chunks ! i) then Inr (chunks ! i ! j)
      else Inl IndexError_out_of_bounds)"

text \<open>The body of the two nested \<^verbatim>\<open>for\<close> loops (lines 118 to 129), on the pair \<open>(X, Y)\<close>.\<close>

definition visit_cell ::
  "dataframe \<Rightarrow> string list \<Rightarrow> point list list list \<Rightarrow> nat list \<times> (string \<times> real list) list
     \<Rightarrow> nat \<times> nat \<Rightarrow> py_error + (nat list \<times> (string \<times> real list) list)" where
  "visit_cell df y_columns chunks XY ij =
     (case XY of (X, Y) \<Rightarrow> case ij of (i, j) \<Rightarrow>
      bind_result (chunk_at chunks i j) (\<lambda>cell.
      let x = length cell in
      if x = 0 then Inr (X, Y)
      else
        bind_result
          (fold_result (add_point df y_columns) (map (\<lambda>c. (c, 0)) (dict_keys y_columns)) cell)
          (\<lambda>total_v. Inr (X @ [x], foldl (\<lambda>Y' (column, v). dict_append Y' column v) Y total_v))))"

text \<open>\<^verbatim>\<open>for i in range(chunk_width): for j in range(chunk_height)\<close>: the index pairs, in
  the order the loops reach them.\<close>

definition cell_indices :: "nat \<Rightarrow> nat \<Rightarrow> (nat \<times> nat) list" where
  "cell_indices chunk_width chunk_height =
     concat (map (\<lambda>i. map (\<lambda>j. (i, j)) [0..<chunk_height]) [0..<chunk_width])"

text \<open>Lines 115 to 129.\<close>

definition aggregate ::
  "dataframe \<Rightarrow> string list \<Rightarrow> point list list list \<Rightarrow> nat \<Rightarrow> nat
     \<Rightarrow> py_error + (nat list \<times> (string \<times> real list) list)" where
  "aggregate df y_columns chunks chunk_width chunk_height =
     fold_result (visit_cell df y_columns chunks)
       ([], map (\<lambda>c. (c, [])) (dict_keys y_columns))
       (cell_indices chunk_width chunk_height)"

section \<open>The plotting loop\<close>

text \<open>
  The calls made on matplotlib and on the logger, in order. \<^verbatim>\<open>round(v, 3)\<close> on a
  float64 rounds half to even and leaves \<^verbatim>\<open>nan\<close> and \<^verbatim>\<open>inf\<close> as they are.
\<close>

datatype event =
    Scatter ndarray ndarray
  | Plot ndarray ndarray string
  | Info string float64

definition round_half_even :: "real \<Rightarrow> int" where
  "round_half_even v =
     (let f = \<lfloor>v\<rfloor>; d = v - of_int f in
      if d < 1 / 2 then f else if 1 / 2 < d then f + 1 else if even f then f else f + 1)"

fun round3 :: "float64 \<Rightarrow> float64" where
  "round3 (Finite r) = Finite (of_int (round_half_even (r * 1000)) / 1000)"
| "round3 PosInf = PosInf"
| "round3 NegInf = NegInf"
| "round3 NaN = NaN"

text \<open>
  Lines 137 to 149, over the entries of \<open>Y\<close>. The result is the calls made so far and the
  exception that ended the run, if one did: nothing in the script catches it. The
  logarithmic model \<^verbatim>\<open>a * np.log(b * t) + c\<close> is the parameter \<open>f\<close>.
\<close>

fun plot_columns ::
  "lstsq_solver \<Rightarrow> curve_fitter \<Rightarrow> model_fn \<Rightarrow> ndarray \<Rightarrow> event list \<Rightarrow> (string \<times> ndarray) list
     \<Rightarrow> event list \<times> py_error option" where
  "plot_columns lstsq curve_fit f X evs [] = (evs, None)"
| "plot_columns lstsq curve_fit f X evs ((column, y) # rest) =
     (let sorted_X = sort X;
          evs1 = evs @ [Scatter X y] in
      case generate_polynomial_trendline lstsq X y None 1 of
        Inl e \<Rightarrow> (evs1, Some e)
      | Inr (trendline, p, rsquared) \<Rightarrow>
          let evs2 = evs1 @ [Plot sorted_X (trendline sorted_X) (column @ '' (linear)'')] in
          case generate_curve_fit curve_fit X y f None of
            Inl e \<Rightarrow> (evs2, Some e)
          | Inr (log_trendline, log_p, log_rsquared) \<Rightarrow>
              plot_columns lstsq curve_fit f X
                (evs2 @
                 [Plot sorted_X (log_trendline sorted_X) (column @ '' (logarithmic)''),
                  Info (column @ '' - Correlation coefficient: '') (round3 p),
                  Info (column @ '' - R-squared (linear): '') (round3 rsquared),
                  Info (column @ '' - R-squared (logarithmic): '') (round3 log_rsquared)])
                rest)"

section \<open>Reference formulas\<close>

text \<open>
  The formulas the statistics functions are compared with, written over the indices of
  the arrays. \<open>weight_vector\<close> is the weights a call uses: all ones without a weight
  function.
\<close>

definition weight_vector :: "ndarray \<Rightarrow> ndarray \<Rightarrow> (real \<Rightarrow> real \<Rightarrow> real) option \<Rightarrow> ndarray" where
  "weight_vector X y weight_func =
     (case weight_func of
        None \<Rightarrow> replicate (length X) 1
      | Some wfun \<Rightarrow> map (\<lambda>i. wfun (X ! i) (y ! i)) [0..<length X])"

definition weighted_mean :: "ndarray \<Rightarrow> ndarray \<Rightarrow> real" where
  "weighted_mean y w = (\<Sum>i<length y. w ! i * y ! i) / (\<Sum>i<length y. w ! i)"

definition total_sum_of_squares :: "ndarray \<Rightarrow> ndarray \<Rightarrow> real" where
  "total_sum_of_squares y w = (\<Sum>i<length y. w ! i * (y ! i - weighted_mean y w) ^ 2)"

definition residual_sum_of_squares :: "ndarray \<Rightarrow> ndarray \<Rightarrow> ndarray \<Rightarrow> real" where
  "residual_sum_of_squares y_regression y w = (\<Sum>i<length y. w ! i * (y_regression ! i - y ! i) ^ 2)"

text \<open>The unweighted mean and Pearson's r of two samples.\<close>

definition mean :: "ndarray \<Rightarrow> real" where
  "mean a = (\<Sum>i<length a. a ! i) / real (length a)"

definition pearson_r :: "ndarray \<Rightarrow> ndarray \<Rightarrow> float64" where
  "pearson_r X y =
     np_divide (\<Sum>i<length X. (X ! i - mean X) * (y ! i - mean y))
       (np_sqrt ((\<Sum>i<length X. (X ! i - mean X) ^ 2) * (\<Sum>i<length X. (y ! i - mean y) ^ 2)))"

text \<open>The weighted mean and covariance as \<^verbatim>\<open>np.average\<close> computes them, once its checks
  have passed.\<close>

definition wmean :: "ndarray \<Rightarrow> ndarray \<Rightarrow> real" where
  "wmean a w = sum_list (map2 (\<lambda>u v. u * v) a w) / sum_list w"

definition wcov :: "ndarray \<Rightarrow> ndarray \<Rightarrow> ndarray \<Rightarrow> real" where
  "wcov X y w =
     wmean (map2 (\<lambda>u v. u * v) (map (\<lambda>v. v - wmean X w) X) (map (\<lambda>v. v - wmean y w) y)) w"

text \<open>
  The aggregation loop is compared with these: the cells in the order the loops visit
  them, those of them that hold a point, the sum the loop forms for one point and for
  one cell, and the sum over the rows of the table whose coordinates are those of a point
  of the cell, each row once, \<^verbatim>\<open>nan\<close> counted as 0.
\<close>

definition visited_cells :: "point list list list \<Rightarrow> nat \<Rightarrow> nat \<Rightarrow> point list list" where
  "visited_cells chunks chunk_width chunk_height =
     map (\<lambda>(i, j). chunks ! i ! j) (cell_indices chunk_width chunk_height)"

definition nonempty_cells :: "point list list list \<Rightarrow> nat \<Rightarrow> nat \<Rightarrow> point list list" where
  "nonempty_cells chunks chunk_width chunk_height =
     filter (\<lambda>cell. cell \<noteq> []) (visited_cells chunks chunk_width chunk_height)"

definition point_total :: "dataframe \<Rightarrow> string \<Rightarrow> point \<Rightarrow> real" where
  "point_total df column point = nan_sum (map (\<lambda>r. row_vals r column) (select_rows df point))"

definition cell_total :: "dataframe \<Rightarrow> string \<Rightarrow> point list \<Rightarrow> real" where
  "cell_total df column cell = sum_list (map (point_total df column) cell)"

definition rows_total :: "dataframe \<Rightarrow> string \<Rightarrow> point list \<Rightarrow> real" where
  "rows_total df column cell =
     nan_sum (map (\<lambda>r. row_vals r column)
       (filter (\<lambda>r. Point (row_lon r) (row_lat r) \<in> set cell) df))"

section \<open>Concrete collaborators\<close>

text \<open>
  Inputs for the evaluations below. \<open>const_solver c\<close> is a least-squares solver that
  returns the coefficients \<open>c\<close>, \<open>failing_solver\<close> one that does not converge;
  \<open>failing_curve_fit\<close> is \<^verbatim>\<open>curve_fit\<close> on data for which
  the minimisation fails. \<open>log_model\<close> is the script's model
  \<^verbatim>\<open>lambda t, a, b, c: a * np.log(b * t) + c\<close> at entries where \<open>b * t\<close> is positive;
  elsewhere numpy yields \<^verbatim>\<open>nan\<close> or \<^verbatim>\<open>-inf\<close>, which an entry of this model cannot hold,
  and nothing below evaluates it there.
\<close>

definition const_solver :: "ndarray \<Rightarrow> lstsq_solver" where
  "const_solver c x y deg w = Inr c"

definition failing_solver :: lstsq_solver where
  "failing_solver x y deg w = Inl LinAlgError_lstsq"

definition failing_curve_fit :: curve_fitter where
  "failing_curve_fit f X y sigma absolute_sigma = Inl RuntimeError_curve_fit"

definition log_model :: model_fn where
  "log_model t params =
     (case params of [a, b, c] \<Rightarrow> map (\<lambda>v. a * ln (b * v) + c) t | _ \<Rightarrow> [])"

section \<open>Auxiliary facts\<close>

lemma bind_result_Inl: "bind_result (Inl e) f = Inl e"
  by (simp add: bind_result_def)

lemma bind_result_Inr: "bind_result (Inr v) f = f v"
  by (simp add: bind_result_def)

declare bind_result_Inl [simp] bind_result_Inr [simp]

lemma np_average_eq:
  "np_average a w =
     (if length a \<noteq> length w then Inl TypeError_shapes_differ
      else if sum_list w = 0 then Inl ZeroDivisionError_weights
      else Inr (wmean a w))"
  by (simp add: np_average_def np_sum_def wmean_def)

lemma covariance_Some:
  "covariance X y (Some w) =
     (if length X \<noteq> length w then Inl TypeError_shapes_differ
      else if sum_list w = 0 then Inl ZeroDivisionError_weights
      else if length y \<noteq> length w then Inl TypeError_shapes_differ
      else Inr (wcov X y w))"
  by (simp add: covariance_def np_average_eq np_multiply_def np_binop_def np_sub_scalar_def wcov_def)

lemma covariance_None: "covariance X y None = covariance X y (Some (ones X))"
  by (simp add: covariance_def)

lemma map2_mult_commute: "map2 (\<lambda>u v. u * v) a b = map2 (\<lambda>u v. u * v) b (a :: real list)"
  by (induction a arbitrary: b) (case_tac b; simp)+

lemma wcov_commute: "wcov X y w = wcov y X w"
  by (simp add: wcov_def map2_mult_commute [of "map (\<lambda>v. v - wmean X w) X"])

lemma correlation_coefficient_eq:
  "correlation_coefficient X y weights =
     (let w = (case weights of None \<Rightarrow> ones X | Some ws \<Rightarrow> ws) in
      if length X \<noteq> length w then Inl TypeError_shapes_differ
      else if sum_list w = 0 then Inl ZeroDivisionError_weights
      else if length y \<noteq> length w then Inl TypeError_shapes_differ
      else Inr (np_divide (wcov X y w) (np_sqrt (wcov X X w * wcov y y w))))"
  by (simp add: correlation_coefficient_def covariance_Some Let_def)

lemma sum_list_map2_nth:
  "length a = length b \<Longrightarrow> sum_list (map2 f a b) = (\<Sum>i<length a. (f (a ! i) (b ! i) :: real))"
proof -
  assume len: "length a = length b"
  have "sum_list (map2 f a b) = (\<Sum>i = 0..<length (map2 f a b). map2 f a b ! i)"
    by (rule sum_list_sum_nth)
  also have "\<dots> = (\<Sum>i<length a. f (a ! i) (b ! i))"
    using len by (intro sum.cong) (auto simp: lessThan_atLeast0)
  finally show ?thesis .
qed

lemma sum_list_nth: "sum_list (a :: real list) = (\<Sum>i<length a. a ! i)"
  by (simp add: sum_list_sum_nth lessThan_atLeast0)

lemma compute_weights_eq:
  "compute_weights X y weight_func =
     (if weight_func \<noteq> None \<and> length y < length X then Inl IndexError_out_of_bounds
      else Inr (case weight_func of None \<Rightarrow> None | Some wfun \<Rightarrow> Some (weight_vector X y weight_func)))"
  by (cases weight_func) (simp_all add: compute_weights_def weight_vector_def)

lemma length_weight_vector [simp]: "length (weight_vector X y weight_func) = length X"
  by (cases weight_func) (simp_all add: weight_vector_def)

lemma wmean_weighted_mean:
  "length w = length y \<Longrightarrow> wmean y w = weighted_mean y w"
  by (simp add: wmean_def weighted_mean_def sum_list_map2_nth sum_list_nth [of w] mult.commute)

lemma cod_value:
  assumes len: "length y = length X" and lt: "length (trendline X) = length X"
    and nz: "sum_list (weight_vector X y weight_func) \<noteq> 0"
  shows "coefficient_of_determination X y trendline weight_func =
           Inr (one_minus (np_divide
                  (residual_sum_of_squares (trendline X) y (weight_vector X y weight_func))
                  (Finite (total_sum_of_squares y (weight_vector X y weight_func)))))"
proof -
  let ?w = "weight_vector X y weight_func"
  have w: "(if weight_func \<noteq> None
        then bind_result (compute_weights X y weight_func)
               (\<lambda>w. case w of None \<Rightarrow> Inl TypeError_None_operand | Some ws \<Rightarrow> Inr ws)
        else Inr (ones X)) = Inr ?w"
    using len by (cases weight_func) (simp_all add: compute_weights_eq ones_def weight_vector_def)
  have avg: "np_average y ?w = Inr (weighted_mean y ?w)"
    using len nz by (simp add: np_average_eq wmean_weighted_mean)
  have tss: "np_multiply ?w (np_square (np_sub_scalar y (weighted_mean y ?w)))
               = Inr (map2 (\<lambda>u v. u * v) ?w (map (\<lambda>v. (v - weighted_mean y ?w) ^ 2) y))"
    using len by (simp add: np_multiply_def np_binop_def np_square_def np_sub_scalar_def comp_def)
  have tss_sum: "sum_list (map2 (\<lambda>u v. u * v) ?w (map (\<lambda>v. (v - weighted_mean y ?w) ^ 2) y))
               = total_sum_of_squares y ?w"
    using len by (simp add: sum_list_map2_nth total_sum_of_squares_def)
  have d: "np_subtract (trendline X) y = Inr (map2 (\<lambda>u v. u - v) (trendline X) y)"
    using len lt by (simp add: np_subtract_def np_binop_def)
  have rss: "np_multiply ?w (np_square (map2 (\<lambda>u v. u - v) (trendline X) y))
               = Inr (map2 (\<lambda>u v. u * v) ?w (map (\<lambda>v. v ^ 2) (map2 (\<lambda>u v. u - v) (trendline X) y)))"
    using len lt by (simp add: np_multiply_def np_binop_def np_square_def)
  have rss_sum: "sum_list (map2 (\<lambda>u v. u * v) ?w (map (\<lambda>v. v ^ 2) (map2 (\<lambda>u v. u - v) (trendline X) y)))
               = residual_sum_of_squares (trendline X) y ?w"
    using len lt by (simp add: sum_list_map2_nth residual_sum_of_squares_def)
  show ?thesis
    unfolding coefficient_of_determination_def w
    by (simp only: bind_result_Inr Let_def avg tss d rss np_sum_def tss_sum rss_sum)
qed

lemma rss_zero:
  "\<forall>i<length y. y_regression ! i = y ! i \<Longrightarrow> residual_sum_of_squares y_regression y w = 0"
  by (simp add: residual_sum_of_squares_def)

lemma sum_lessThan_2: "(\<Sum>i<2. f i) = f 0 + (f (Suc 0) :: real)"
  by (simp add: numeral_2_eq_2)

lemma sum_weights_nonneg:
  assumes "\<forall>i<n. 0 \<le> (w ! i :: real)"
  shows "0 \<le> (\<Sum>i<n. w ! i * (f i) ^ 2)"
  using assms by (intro sum_nonneg) simp

lemma covariance_eq:
  "covariance X y weights =
     (let w = (case weights of None \<Rightarrow> ones X | Some ws \<Rightarrow> ws) in
      if length X \<noteq> length w then Inl TypeError_shapes_differ
      else if sum_list w = 0 then Inl ZeroDivisionError_weights
      else if length y \<noteq> length w then Inl TypeError_shapes_differ
      else Inr (wcov X y w))"
  by (cases weights) (simp_all add: covariance_None covariance_Some)

lemma default_weights_cong:
  "length y = length X \<Longrightarrow>
   (case weights of None \<Rightarrow> ones y | Some ws \<Rightarrow> ws) = (case weights of None \<Rightarrow> ones X | Some ws \<Rightarrow> ws)"
  by (cases weights) (simp_all add: ones_def)

lemma covariance_values:
  assumes "length y = length X"
    and "length (case weights of None \<Rightarrow> ones X | Some ws \<Rightarrow> ws) = length X"
    and "sum_list (case weights of None \<Rightarrow> ones X | Some ws \<Rightarrow> ws) \<noteq> 0"
  shows "covariance X y weights = Inr (wcov X y (case weights of None \<Rightarrow> ones X | Some ws \<Rightarrow> ws))"
    and "covariance X X weights = Inr (wcov X X (case weights of None \<Rightarrow> ones X | Some ws \<Rightarrow> ws))"
    and "covariance y y weights = Inr (wcov y y (case weights of None \<Rightarrow> ones X | Some ws \<Rightarrow> ws))"
proof -
  show "covariance X y weights = Inr (wcov X y (case weights of None \<Rightarrow> ones X | Some ws \<Rightarrow> ws))"
    using assms by (simp add: covariance_eq Let_def)
  show "covariance X X weights = Inr (wcov X X (case weights of None \<Rightarrow> ones X | Some ws \<Rightarrow> ws))"
    using assms by (simp add: covariance_eq Let_def)
  show "covariance y y weights = Inr (wcov y y (case weights of None \<Rightarrow> ones X | Some ws \<Rightarrow> ws))"
    using assms by (simp add: covariance_eq Let_def default_weights_cong [OF assms(1)])
qed

lemma covariance_returns:
  assumes "covariance X y weights = Inr c"
  shows "length y = length X"
    and "length (case weights of None \<Rightarrow> ones X | Some ws \<Rightarrow> ws) = length X"
    and "sum_list (case weights of None \<Rightarrow> ones X | Some ws \<Rightarrow> ws) \<noteq> 0"
  using assms by (simp_all add: covariance_eq Let_def split: if_splits)

lemma sum_list_map2_replicate:
  "length a = n \<Longrightarrow> sum_list (map2 (\<lambda>u v. u * v) a (replicate n c)) = c * sum_list (a :: real list)"
  by (induction a arbitrary: n) (auto simp: algebra_simps)

lemma wmean_replicate:
  assumes "length a = n" and "c \<noteq> 0" and "0 < n"
  shows "wmean a (replicate n c) = mean a"
proof -
  have "wmean a (replicate n c) = c * sum_list a / (real n * c)"
    using assms(1) by (simp add: wmean_def sum_list_map2_replicate sum_list_replicate)
  also have "\<dots> = sum_list a / real n"
    using assms(2) by simp
  also have "\<dots> = mean a"
    using assms(1) by (simp add: mean_def sum_list_nth [of a])
  finally show ?thesis .
qed

lemma wcov_replicate:
  assumes "length y = length X" and "c \<noteq> 0" and "X \<noteq> []"
  shows "wcov X y (replicate (length X) c) =
           (\<Sum>i<length X. (X ! i - mean X) * (y ! i - mean y)) / real (length X)"
proof -
  let ?n = "length X"
  let ?p = "map2 (\<lambda>u v. u * v) (map (\<lambda>v. v - mean X) X) (map (\<lambda>v. v - mean y) y)"
  have n: "0 < ?n" using assms(3) by simp
  have "wcov X y (replicate ?n c) = wmean ?p (replicate ?n c)"
    using assms n by (simp add: wcov_def wmean_replicate)
  also have "\<dots> = mean ?p"
    using assms n by (intro wmean_replicate) simp_all
  also have "\<dots> = (\<Sum>i<?n. (X ! i - mean X) * (y ! i - mean y)) / real ?n"
    using assms(1) by (simp add: mean_def)
  finally show ?thesis .
qed

lemma np_divide_scale:
  assumes "0 < (n :: real)"
  shows "np_divide (a / n) (np_sqrt (b / n * (c / n))) = np_divide a (np_sqrt (b * c))"
proof -
  have eq: "b / n * (c / n) = b * c / (n * n)" by simp
  have s: "sqrt (b * c / (n * n)) = sqrt (b * c) / n"
    using assms by (simp add: real_sqrt_divide real_sqrt_mult)
  have sgn1: "b * c / (n * n) < 0 \<longleftrightarrow> b * c < 0"
    using assms by (simp add: divide_less_0_iff zero_less_mult_iff)
  have z: "sqrt (b * c) / n = 0 \<longleftrightarrow> sqrt (b * c) = 0"
    using assms by simp
  have za: "a / n = 0 \<longleftrightarrow> a = 0" "0 < a / n \<longleftrightarrow> 0 < a"
    using assms by (simp_all add: zero_less_divide_iff)
  show ?thesis
    unfolding eq np_sqrt_def sgn1
    using assms by (simp add: s za del: real_sqrt_eq_zero_cancel_iff)
qed



lemma length_np_poly1d [simp]: "length (np_poly1d c xs) = length xs"
  by (simp add: np_poly1d_def)

lemma metrics_returns:
  assumes "X \<noteq> []" and "length y = length X" and "length (trendline X) = length X"
  shows "\<exists>p r. generate_trendline_metrics X y trendline None = Inr (p, r)"
proof -
  have nz: "sum_list (weight_vector X y None) \<noteq> 0"
    using assms(1) by (simp add: weight_vector_def sum_list_replicate)
  have "\<exists>p. correlation_coefficient X y None = Inr p"
    using assms(1,2) by (simp add: correlation_coefficient_eq Let_def ones_def sum_list_replicate)
  moreover have "\<exists>r. coefficient_of_determination X y trendline None = Inr r"
    using cod_value [of y X trendline None, OF assms(2,3) nz] by simp
  ultimately show ?thesis
    by (auto simp: generate_trendline_metrics_def compute_weights_eq)
qed

lemma linear_fit_example:
  "generate_polynomial_trendline (const_solver [2, 0]) [1, 3] [2, 6] None 1
     = Inr (np_poly1d [2, 0], Finite 1, Finite 1)"
proof -
  have "sqrt 16 = 4"
    using real_sqrt_abs2 [of 4] by simp
  then have cc: "correlation_coefficient [1, 3] [2, 6] None = Inr (Finite 1)"
    by (simp add: correlation_coefficient_eq ones_def wcov_def wmean_def np_sqrt_def)
  have cod: "coefficient_of_determination [1, 3] [2, 6] (np_poly1d [2, 0]) None = Inr (Finite 1)"
    by (subst cod_value)
       (simp_all add: np_poly1d_def weight_vector_def residual_sum_of_squares_def
          total_sum_of_squares_def weighted_mean_def sum_lessThan_2 power2_eq_square)
  show ?thesis
    by (simp add: generate_polynomial_trendline_def generate_trendline_metrics_def
        compute_weights_eq np_polyfit_def const_solver_def cc cod)
qed

subsection \<open>The aggregation loop, in closed form\<close>

text \<open>
  With distinct column names and a grid that has the cells the loops index, the loop
  returns the point counts of the non-empty cells in visiting order and, per column, each
  such cell's total. Where the points of a cell are pairwise different, that total is the
  sum over the matching rows.
\<close>

lemma dict_keys_distinct: "distinct y_columns \<Longrightarrow> dict_keys y_columns = y_columns"
  by (simp add: dict_keys_def distinct_remdups_id)

lemma dict_add_map:
  "dict_add (map (\<lambda>c. (c, g c)) cs) column s
     = map (\<lambda>c. (c, if c = column then g c + s else g c)) cs"
  by (simp add: dict_add_def)

lemma foldl_dict_add:
  "distinct ks \<Longrightarrow>
   foldl (\<lambda>tv column. dict_add tv column (s column)) (map (\<lambda>c. (c, g c)) cs) ks
     = map (\<lambda>c. (c, if c \<in> set ks then g c + s c else g c)) cs"
proof (induction ks arbitrary: g)
  case Nil
  then show ?case by simp
next
  case (Cons k ks)
  have "foldl (\<lambda>tv column. dict_add tv column (s column)) (map (\<lambda>c. (c, g c)) cs) (k # ks)
      = foldl (\<lambda>tv column. dict_add tv column (s column))
          (map (\<lambda>c. (c, if c = k then g c + s k else g c)) cs) ks"
    by (simp add: dict_add_map)
  also have "\<dots> = map (\<lambda>c. (c, if c \<in> set ks then (if c = k then g c + s k else g c) + s c
                                 else (if c = k then g c + s k else g c))) cs"
    using Cons.prems by (intro Cons.IH) simp
  also have "\<dots> = map (\<lambda>c. (c, if c \<in> set (k # ks) then g c + s c else g c)) cs"
    using Cons.prems by auto
  finally show ?case .
qed

lemma add_point_map:
  assumes "distinct y_columns"
  shows "add_point df y_columns (map (\<lambda>c. (c, g c)) y_columns) point
           = Inr (map (\<lambda>c. (c, g c + point_total df c point)) y_columns)"
  using assms
  by (simp add: add_point_def Let_def point_total_def
      foldl_dict_add [where s = "\<lambda>c. nan_sum (map (\<lambda>r. row_vals r c) (select_rows df point))"])

lemma fold_add_point:
  assumes "distinct y_columns"
  shows "fold_result (add_point df y_columns) (map (\<lambda>c. (c, g c)) y_columns) cell
           = Inr (map (\<lambda>c. (c, g c + cell_total df c cell)) y_columns)"
proof (induction cell arbitrary: g)
  case Nil
  then show ?case by (simp add: cell_total_def)
next
  case (Cons p cell)
  show ?case
    by (simp add: add_point_map [OF assms] Cons.IH cell_total_def add.assoc)
qed

lemma dict_append_map:
  "dict_append (map (\<lambda>c. (c, h c)) cs) column v
     = map (\<lambda>c. (c, if c = column then h c @ [v] else h c)) cs"
  by (simp add: dict_append_def)

lemma foldl_dict_append:
  "distinct ks \<Longrightarrow>
   foldl (\<lambda>Y' (column, v). dict_append Y' column v) (map (\<lambda>c. (c, h c)) cs)
       (map (\<lambda>c. (c, t c)) ks)
     = map (\<lambda>c. (c, if c \<in> set ks then h c @ [t c] else h c)) cs"
proof (induction ks arbitrary: h)
  case Nil
  then show ?case by simp
next
  case (Cons k ks)
  have "foldl (\<lambda>Y' (column, v). dict_append Y' column v) (map (\<lambda>c. (c, h c)) cs)
          (map (\<lambda>c. (c, t c)) (k # ks))
      = foldl (\<lambda>Y' (column, v). dict_append Y' column v)
          (map (\<lambda>c. (c, if c = k then h c @ [t k] else h c)) cs) (map (\<lambda>c. (c, t c)) ks)"
    by (simp add: dict_append_map)
  also have "\<dots> = map (\<lambda>c. (c, if c \<in> set ks then (if c = k then h c @ [t k] else h c) @ [t c]
                                 else (if c = k then h c @ [t k] else h c))) cs"
    using Cons.prems by (intro Cons.IH) simp
  also have "\<dots> = map (\<lambda>c. (c, if c \<in> set (k # ks) then h c @ [t c] else h c)) cs"
    using Cons.prems by auto
  finally show ?case .
qed

lemma visit_cell_value:
  assumes "distinct y_columns" and "i < length chunks" and "j < length (chunks ! i)"
  shows "visit_cell df y_columns chunks (X, map (\<lambda>c. (c, h c)) y_columns) (i, j)
           = Inr (if chunks ! i ! j = [] then (X, map (\<lambda>c. (c, h c)) y_columns)
                  else (X @ [length (chunks ! i ! j)],
                        map (\<lambda>c. (c, h c @ [cell_total df c (chunks ! i ! j)])) y_columns))"
proof -
  have tv: "fold_result (add_point df y_columns) (map (\<lambda>c. (c, 0)) (dict_keys y_columns)) (chunks ! i ! j)
              = Inr (map (\<lambda>c. (c, cell_total df c (chunks ! i ! j))) y_columns)"
    using fold_add_point [OF assms(1), of df "\<lambda>c. 0"] by (simp add: dict_keys_distinct [OF assms(1)])
  have app: "foldl (\<lambda>Y' (column, v). dict_append Y' column v) (map (\<lambda>c. (c, h c)) y_columns)
               (map (\<lambda>c. (c, cell_total df c (chunks ! i ! j))) y_columns)
             = map (\<lambda>c. (c, h c @ [cell_total df c (chunks ! i ! j)])) y_columns"
    using foldl_dict_append [OF assms(1), of h y_columns] by simp
  show ?thesis
    using assms(2,3) by (simp add: visit_cell_def chunk_at_def Let_def tv app)
qed

lemma fold_visit_cell:
  assumes "distinct y_columns"
    and "\<forall>(i, j) \<in> set ijs. i < length chunks \<and> j < length (chunks ! i)"
  shows "fold_result (visit_cell df y_columns chunks) (X, map (\<lambda>c. (c, h c)) y_columns) ijs
           = Inr (X @ map length (filter (\<lambda>cell. cell \<noteq> []) (map (\<lambda>(i, j). chunks ! i ! j) ijs)),
                  map (\<lambda>c. (c, h c @ map (cell_total df c)
                         (filter (\<lambda>cell. cell \<noteq> []) (map (\<lambda>(i, j). chunks ! i ! j) ijs)))) y_columns)"
  using assms(2)
proof (induction ijs arbitrary: X h)
  case Nil
  then show ?case by simp
next
  case (Cons ij ijs)
  obtain i j where ij: "ij = (i, j)" by (cases ij)
  from Cons.prems ij have r: "i < length chunks" "j < length (chunks ! i)"
    and rest: "\<forall>(i, j) \<in> set ijs. i < length chunks \<and> j < length (chunks ! i)"
    by auto
  show ?case
  proof (cases "chunks ! i ! j = []")
    case True
    then show ?thesis
      using Cons.IH [OF rest, of X h]
      by (simp add: ij visit_cell_value [OF assms(1) r])
  next
    case False
    then show ?thesis
      using Cons.IH [OF rest, of "X @ [length (chunks ! i ! j)]"
          "\<lambda>c. h c @ [cell_total df c (chunks ! i ! j)]"]
      by (simp add: ij visit_cell_value [OF assms(1) r])
  qed
qed

lemma cell_indices_in_range:
  assumes "chunk_width \<le> length chunks" and "\<forall>i<chunk_width. chunk_height \<le> length (chunks ! i)"
  shows "\<forall>(i, j) \<in> set (cell_indices chunk_width chunk_height). i < length chunks \<and> j < length (chunks ! i)"
  using assms by (fastforce simp: cell_indices_def)

lemma aggregate_value:
  assumes "distinct y_columns" and "chunk_width \<le> length chunks"
    and "\<forall>i<chunk_width. chunk_height \<le> length (chunks ! i)"
  shows "aggregate df y_columns chunks chunk_width chunk_height
           = Inr (map length (nonempty_cells chunks chunk_width chunk_height),
                  map (\<lambda>c. (c, map (cell_total df c) (nonempty_cells chunks chunk_width chunk_height)))
                    y_columns)"
  using fold_visit_cell [OF assms(1) cell_indices_in_range [OF assms(2,3)], of df "[]" "\<lambda>c. []"]
  by (simp add: aggregate_def dict_keys_distinct [OF assms(1)] nonempty_cells_def visited_cells_def)

lemma nan_sum_Cons: "nan_sum (v # vs) = (case v of None \<Rightarrow> 0 | Some x \<Rightarrow> x) + nan_sum vs"
  by (simp add: nan_sum_def)

lemma cell_total_rows_total:
  assumes "distinct cell"
  shows "cell_total df column cell = rows_total df column cell"
proof (induction df)
  case Nil
  have "point_total [] column p = 0" for p
    by (simp add: point_total_def select_rows_def nan_sum_def)
  then have "sum_list (map (point_total [] column) cell) = 0"
    by (induction cell) simp_all
  then show ?case
    by (simp add: cell_total_def rows_total_def nan_sum_def)
next
  case (Cons r df)
  let ?v = "case row_vals r column of None \<Rightarrow> 0 | Some x \<Rightarrow> x"
  let ?P = "Point (row_lon r) (row_lat r)"
  have pt: "point_total (r # df) column p
              = (if p = ?P then ?v else 0) + point_total df column p" for p
    by (cases p) (auto simp: point_total_def select_rows_def nan_sum_Cons)
  have "cell_total (r # df) column cell
          = sum_list (map (\<lambda>p. if p = ?P then ?v else 0) cell) + cell_total df column cell"
    unfolding cell_total_def by (induction cell) (simp_all add: pt)
  also have "sum_list (map (\<lambda>p. if p = ?P then ?v else 0) cell) = (if ?P \<in> set cell then ?v else 0)"
    using assms by (simp add: sum_list_distinct_conv_sum_set sum.delta')
  also have "(if ?P \<in> set cell then ?v else 0) + cell_total df column cell
               = rows_total (r # df) column cell"
    by (simp add: Cons.IH rows_total_def nan_sum_Cons)
  finally show ?case .
qed

lemma aggregate_distinct_points:
  assumes "distinct y_columns" and "chunk_width \<le> length chunks"
    and "\<forall>i<chunk_width. chunk_height \<le> length (chunks ! i)"
    and "\<forall>cell \<in> set (nonempty_cells chunks chunk_width chunk_height). distinct cell"
  shows "aggregate df y_columns chunks chunk_width chunk_height
           = Inr (map length (nonempty_cells chunks chunk_width chunk_height),
                  map (\<lambda>c. (c, map (rows_total df c) (nonempty_cells chunks chunk_width chunk_height)))
                    y_columns)"
proof -
  have "map (cell_total df c) (nonempty_cells chunks chunk_width chunk_height)
          = map (rows_total df c) (nonempty_cells chunks chunk_width chunk_height)" for c
    using assms(4) by (intro map_cong refl cell_total_rows_total) simp
  then show ?thesis
    by (simp add: aggregate_value [OF assms(1-3)])
qed

lemma check_input_eq:
  "check_input p =
     (if p = Missing then ([''The specified input is not a file or does not exist!''], Some 1)
      else ([], None))"
  by (cases p) (simp_all add: check_input_def is_file_def path_exists_def)






section \<open>Coefficient of determination\<close>

text \<open>
  Claim C2. For arrays \<open>X\<close> and \<open>y\<close> of equal length and a trendline that returns an
  array of that length, with weights whose sum is not zero (all ones without a weight
  function), \<open>coefficient_of_determination\<close> returns \<open>1 - RSS / TSS\<close>: \<open>RSS\<close> is the
  weighted sum of the squared residuals between the trendline's values and \<open>y\<close>, \<open>TSS\<close>
  the weighted sum of the squared deviations of \<open>y\<close> from its weighted mean. When the
  trendline meets every \<open>y ! i\<close> and \<open>TSS\<close> is not zero, the result is exactly 1.
\<close>

theorem coefficient_of_determination_formula:
  assumes "length y = length X" and "length (trendline X) = length X"
    and "sum_list (weight_vector X y weight_func) \<noteq> 0"
  shows "coefficient_of_determination X y trendline weight_func =
           Inr (one_minus (np_divide
                  (residual_sum_of_squares (trendline X) y (weight_vector X y weight_func))
                  (Finite (total_sum_of_squares y (weight_vector X y weight_func)))))
         \<and> ((\<forall>i<length X. trendline X ! i = y ! i)
              \<and> total_sum_of_squares y (weight_vector X y weight_func) \<noteq> 0
            \<longrightarrow> coefficient_of_determination X y trendline weight_func = Inr (Finite 1))"
proof -
  have v: "coefficient_of_determination X y trendline weight_func =
           Inr (one_minus (np_divide
                  (residual_sum_of_squares (trendline X) y (weight_vector X y weight_func))
                  (Finite (total_sum_of_squares y (weight_vector X y weight_func)))))"
    using assms by (rule cod_value)
  have "coefficient_of_determination X y trendline weight_func = Inr (Finite 1)"
    if "\<forall>i<length X. trendline X ! i = y ! i"
      and "total_sum_of_squares y (weight_vector X y weight_func) \<noteq> 0"
  proof -
    have "residual_sum_of_squares (trendline X) y (weight_vector X y weight_func) = 0"
      using that(1) assms(1) by (intro rss_zero) simp
    then show ?thesis using that(2) by (simp add: v)
  qed
  with v show ?thesis by blast
qed

theorem coefficient_of_determination_formula_witness:
  "coefficient_of_determination [1, 2] [2, 4] (np_poly1d [2, 0]) None = Inr (Finite 1)"
proof -
  have len: "length [2, 4 :: real] = length [1, 2 :: real]"
    by simp
  have lt: "length (np_poly1d [2, 0] [1, 2]) = length [1, 2 :: real]"
    by (simp add: np_poly1d_def)
  have nz: "sum_list (weight_vector [1, 2] [2, 4] None) \<noteq> 0"
    by (simp add: weight_vector_def)
  have tss: "total_sum_of_squares [2, 4] (weight_vector [1, 2] [2, 4] None) \<noteq> 0"
    by (simp add: total_sum_of_squares_def weighted_mean_def weight_vector_def sum_lessThan_2 power2_eq_square)
  have fit: "\<forall>i<length [1, 2 :: real]. np_poly1d [2, 0] [1, 2] ! i = [2, 4] ! i"
    by (simp add: np_poly1d_def less_Suc_eq)
  from coefficient_of_determination_formula [of "[2, 4]" "[1, 2]" "np_poly1d [2, 0]" None, OF len lt nz] tss fit show ?thesis
    by blast
qed

text \<open>
  Claim C10. With nonnegative weights of positive sum and a total sum of squares that is
  not zero, \<open>coefficient_of_determination\<close> returns a finite value that is at most 1.
  It is not bounded below by 0: on \<open>X = y = [1, 2]\<close> with the constant trendline 5 it
  returns \<open>- 49\<close>.
\<close>

theorem coefficient_of_determination_at_most_one:
  assumes "length y = length X" and "length (trendline X) = length X"
    and "\<forall>i<length X. 0 \<le> weight_vector X y weight_func ! i"
    and "0 < sum_list (weight_vector X y weight_func)"
    and "total_sum_of_squares y (weight_vector X y weight_func) \<noteq> 0"
  shows "(\<exists>r. coefficient_of_determination X y trendline weight_func = Inr (Finite r) \<and> r \<le> 1)
         \<and> coefficient_of_determination [1, 2] [1, 2] (np_poly1d [5]) None = Inr (Finite (- 49))"
proof -
  let ?w = "weight_vector X y weight_func"
  have v: "coefficient_of_determination X y trendline weight_func =
           Inr (one_minus (np_divide (residual_sum_of_squares (trendline X) y ?w)
                  (Finite (total_sum_of_squares y ?w))))"
    using assms(1,2,4) by (intro cod_value) simp_all
  have rss: "0 \<le> residual_sum_of_squares (trendline X) y ?w"
    unfolding residual_sum_of_squares_def using assms(1,3) by (intro sum_weights_nonneg) simp
  have "0 \<le> total_sum_of_squares y ?w"
    unfolding total_sum_of_squares_def using assms(1,3) by (intro sum_weights_nonneg) simp
  with assms(5) have tss: "0 < total_sum_of_squares y ?w" by simp
  have "0 \<le> residual_sum_of_squares (trendline X) y ?w / total_sum_of_squares y ?w"
    using rss tss by simp
  then have general: "\<exists>r. coefficient_of_determination X y trendline weight_func = Inr (Finite r) \<and> r \<le> 1"
    using tss by (simp add: v)
  have ex: "coefficient_of_determination [1, 2] [1, 2] (np_poly1d [5]) None = Inr (Finite (- 49))"
    by (subst cod_value)
       (simp_all add: np_poly1d_def weight_vector_def residual_sum_of_squares_def
          total_sum_of_squares_def weighted_mean_def sum_lessThan_2 power2_eq_square)
  from general ex show ?thesis by blast
qed

theorem coefficient_of_determination_at_most_one_witness:
  "\<exists>r. coefficient_of_determination [1, 2] [2, 5] (np_poly1d [2, 0]) None = Inr (Finite r) \<and> r \<le> 1"
proof -
  have "\<forall>i<length [1, 2 :: real]. 0 \<le> weight_vector [1, 2] [2, 5] None ! i"
    by (simp add: weight_vector_def less_Suc_eq)
  moreover have "total_sum_of_squares [2, 5] (weight_vector [1, 2] [2, 5] None) \<noteq> 0"
    by (simp add: total_sum_of_squares_def weighted_mean_def weight_vector_def sum_lessThan_2 power2_eq_square)
  moreover have "length (np_poly1d [2, 0] [1, 2]) = length [1, 2 :: real]"
    by (simp add: np_poly1d_def)
  moreover have "0 < sum_list (weight_vector [1, 2] [2, 5] None)"
    by (simp add: weight_vector_def)
  ultimately show ?thesis
    using coefficient_of_determination_at_most_one [of "[2, 5]" "[1, 2]" "np_poly1d [2, 0]" None] by simp
qed

section \<open>Covariance and correlation\<close>

text \<open>
  Claim C9. \<open>correlation_coefficient\<close> is symmetric in its two data arguments: for
  arrays of equal length and any weights, given or not, swapping \<open>X\<close> and \<open>y\<close> gives the
  same result, the same exception included.
\<close>

theorem correlation_coefficient_symmetric: "length X = length y \<Longrightarrow> correlation_coefficient X y w = correlation_coefficient y X w"
  by (cases w) (simp_all add: correlation_coefficient_eq Let_def ones_def wcov_commute mult.commute)

theorem correlation_coefficient_symmetric_witness:
  "length [1, 2 :: real] = length [2, 5 :: real]
   \<and> correlation_coefficient [1, 2] [2, 5] None = correlation_coefficient [2, 5] [1, 2] None"
  using correlation_coefficient_symmetric [of "[1, 2]" "[2, 5]" None] by simp

text \<open>
  Claim C6, as stated: for arrays of different lengths \<open>covariance\<close> fails with a
  length-mismatch error. The script has no length check of its own; the failure comes
  from \<^verbatim>\<open>np.average\<close>, whose shape mismatch is a TypeError. With \<open>X\<close> empty and no weights
  given, the weights \<^verbatim>\<open>[1] * len(X)\<close> are empty too, their shape matches, and the
  exception is the ZeroDivisionError of a zero weight sum.
\<close>

theorem covariance_length_mismatch_counterexample:
  "length ([] :: real list) \<noteq> length [1 :: real]
   \<and> covariance [] [1] None = Inl ZeroDivisionError_weights"
  by (simp add: covariance_None covariance_Some ones_def)

text \<open>
  Claim C6, amended. For arrays of different lengths \<open>covariance\<close> always raises and
  never returns a number: the ZeroDivisionError of \<^verbatim>\<open>np.average\<close> when the weights have
  the length of \<open>X\<close> and sum to zero, its shape-mismatch TypeError otherwise.
\<close>

theorem covariance_length_mismatch_raises:
  "length X \<noteq> length y \<Longrightarrow>
   covariance X y weights =
     (let w = (case weights of None \<Rightarrow> ones X | Some ws \<Rightarrow> ws) in
      if length X = length w \<and> np_sum w = 0 then Inl ZeroDivisionError_weights
      else Inl TypeError_shapes_differ)"
  by (cases weights) (auto simp: covariance_None covariance_Some np_sum_def ones_def)

theorem covariance_length_mismatch_raises_witness:
  "length [1, 2 :: real] \<noteq> length [1 :: real] \<and> covariance [1, 2] [1] None = Inl TypeError_shapes_differ"
  using covariance_length_mismatch_raises [of "[1, 2]" "[1]" None] by (simp add: ones_def np_sum_def)

text \<open>
  Claim C1. For arrays of equal length and weights of that length whose sum is not zero
  (all ones when none are given), \<open>correlation_coefficient\<close> returns
  \<open>cov(X, y) / sqrt (cov(X, X) * cov(y, y))\<close>, the three covariances being what
  \<open>covariance\<close> returns for the same weights. With equal weights, given or not, the
  result is the unweighted Pearson coefficient of the two samples, over exact arithmetic.
\<close>

theorem correlation_coefficient_is_pearson:
  assumes "length y = length X"
    and "length (case weights of None \<Rightarrow> ones X | Some ws \<Rightarrow> ws) = length X"
    and "sum_list (case weights of None \<Rightarrow> ones X | Some ws \<Rightarrow> ws) \<noteq> 0"
  shows "(\<exists>cxy cxx cyy.
            covariance X y weights = Inr cxy \<and> covariance X X weights = Inr cxx
            \<and> covariance y y weights = Inr cyy
            \<and> correlation_coefficient X y weights = Inr (np_divide cxy (np_sqrt (cxx * cyy))))
         \<and> (weights = None \<or> (\<exists>c. weights = Some (replicate (length X) c))
            \<longrightarrow> correlation_coefficient X y weights = Inr (pearson_r X y))"
proof -
  let ?w = "case weights of None \<Rightarrow> ones X | Some ws \<Rightarrow> ws"
  note cov = covariance_values [OF assms]
  have cc: "correlation_coefficient X y weights =
              Inr (np_divide (wcov X y ?w) (np_sqrt (wcov X X ?w * wcov y y ?w)))"
    using assms by (simp add: correlation_coefficient_eq Let_def)
  have "correlation_coefficient X y weights = Inr (pearson_r X y)"
    if eqw: "weights = None \<or> (\<exists>c. weights = Some (replicate (length X) c))"
  proof -
    from eqw have "\<exists>c. ?w = replicate (length X) c"
      by (auto simp: ones_def)
    then obtain c where w: "?w = replicate (length X) c" ..
    from assms(3) w have c: "c \<noteq> 0" and ne: "X \<noteq> []"
      by (auto simp: sum_list_replicate)
    have n: "0 < real (length X)" using ne by simp
    have ney: "y \<noteq> []" using ne assms(1) by auto
    have len: "length X = length y" using assms(1) by simp
    show ?thesis
      unfolding cc w
      using np_divide_scale [OF n]
      by (simp add: wcov_replicate [OF assms(1) c ne] wcov_replicate [OF refl c ne]
          wcov_replicate [OF refl c ney, folded len] pearson_r_def power2_eq_square)
  qed
  with cov cc show ?thesis by blast
qed

theorem correlation_coefficient_is_pearson_witness:
  "correlation_coefficient [1, 3] [2, 6] None = Inr (pearson_r [1, 3] [2, 6])
   \<and> pearson_r [1, 3] [2, 6] = Finite 1"
proof -
  have len: "length [2, 6 :: real] = length [1, 3 :: real]"
    by simp
  have lw: "length (case None of None \<Rightarrow> ones [1, 3] | Some ws \<Rightarrow> ws) = length [1, 3 :: real]"
    by (simp add: ones_def)
  have nz: "sum_list (case None of None \<Rightarrow> ones [1, 3] | Some ws \<Rightarrow> ws) \<noteq> 0"
    by (simp add: ones_def)
  have "sqrt 16 = 4"
    using real_sqrt_abs2 [of 4] by simp
  then have r: "pearson_r [1, 3] [2, 6] = Finite 1"
    by (simp add: pearson_r_def mean_def sum_lessThan_2 np_sqrt_def power2_eq_square)
  from correlation_coefficient_is_pearson [of "[2, 6]" "[1, 3]" None, OF len lw nz] r show ?thesis
    by blast
qed




section \<open>The fitters\<close>

text \<open>
  Claim C8, as stated: the polynomial fitter fails when \<open>len(X) < degree + 1\<close>. Neither
  the script nor \<^verbatim>\<open>np.polyfit\<close> checks that: for the one point \<open>(3, 5)\<close> and degree 1
  numpy returns the minimum-norm line through the point (coefficients \<open>5 / 6\<close> and
  \<open>5 / 2\<close>) with a RankWarning, and the fitter returns that trendline with its two
  metrics instead of raising.
\<close>

theorem polynomial_trendline_underdetermined_counterexample:
  "length [3 :: real] < nat 1 + 1
   \<and> \<not> isl (generate_polynomial_trendline (const_solver [5 / 6, 5 / 2]) [3] [5] None 1)"
proof -
  obtain p r where "generate_trendline_metrics [3] [5] (np_poly1d [5 / 6, 5 / 2]) None = Inr (p, r)"
    using metrics_returns [of "[3]" "[5]" "np_poly1d [5 / 6, 5 / 2]"] by auto
  then show ?thesis
    by (simp add: generate_polynomial_trendline_def compute_weights_eq np_polyfit_def const_solver_def)
qed

text \<open>
  Claim C8, amended. Without a weight function, \<open>generate_polynomial_trendline\<close> raises
  what \<^verbatim>\<open>np.polyfit\<close> raises and nothing else: ValueError for a negative degree, TypeError
  for an empty \<open>X\<close> or for \<open>X\<close> and \<open>y\<close> of different lengths, and whatever the
  least-squares solver raises. The number of points is never compared with the degree:
  whenever the solver returns coefficients, also for fewer points than coefficients, the
  fitter returns the polynomial of those coefficients together with the correlation
  coefficient of the sample and the coefficient of determination of that polynomial.
\<close>

theorem polynomial_trendline_result:
  "(degree < 0 \<longrightarrow>
      generate_polynomial_trendline lstsq X y None degree = Inl ValueError_polyfit_deg)
   \<and> (0 \<le> degree \<and> X = [] \<longrightarrow>
      generate_polynomial_trendline lstsq X y None degree = Inl TypeError_polyfit_empty)
   \<and> (0 \<le> degree \<and> X \<noteq> [] \<and> length X \<noteq> length y \<longrightarrow>
      generate_polynomial_trendline lstsq X y None degree = Inl TypeError_polyfit_length)
   \<and> (0 \<le> degree \<and> X \<noteq> [] \<and> length X = length y \<and> lstsq X y (nat degree) None = Inl e \<longrightarrow>
      generate_polynomial_trendline lstsq X y None degree = Inl e)
   \<and> (0 \<le> degree \<and> X \<noteq> [] \<and> length X = length y \<and> lstsq X y (nat degree) None = Inr coeffs \<longrightarrow>
      (\<exists>p r. correlation_coefficient X y None = Inr p
           \<and> coefficient_of_determination X y (np_poly1d coeffs) None = Inr r
           \<and> generate_polynomial_trendline lstsq X y None degree = Inr (np_poly1d coeffs, p, r)))"
proof (intro conjI impI)
  assume "degree < 0"
  then show "generate_polynomial_trendline lstsq X y None degree = Inl ValueError_polyfit_deg"
    by (simp add: generate_polynomial_trendline_def compute_weights_eq np_polyfit_def)
next
  assume "0 \<le> degree \<and> X = []"
  then show "generate_polynomial_trendline lstsq X y None degree = Inl TypeError_polyfit_empty"
    by (simp add: generate_polynomial_trendline_def compute_weights_eq np_polyfit_def)
next
  assume "0 \<le> degree \<and> X \<noteq> [] \<and> length X \<noteq> length y"
  then show "generate_polynomial_trendline lstsq X y None degree = Inl TypeError_polyfit_length"
    by (simp add: generate_polynomial_trendline_def compute_weights_eq np_polyfit_def)
next
  assume a: "0 \<le> degree \<and> X \<noteq> [] \<and> length X = length y \<and> lstsq X y (nat degree) None = Inl e"
  then have "np_polyfit lstsq X y degree None = Inl e"
    by (simp add: np_polyfit_def)
  then show "generate_polynomial_trendline lstsq X y None degree = Inl e"
    by (simp add: generate_polynomial_trendline_def compute_weights_eq)
next
  assume a: "0 \<le> degree \<and> X \<noteq> [] \<and> length X = length y \<and> lstsq X y (nat degree) None = Inr coeffs"
  then have fit: "np_polyfit lstsq X y degree None = Inr coeffs"
    by (simp add: np_polyfit_def)
  from a have ne: "X \<noteq> []" and ly: "length y = length X"
    by simp_all
  have nz: "sum_list (weight_vector X y None) \<noteq> 0"
    using ne by (simp add: weight_vector_def sum_list_replicate)
  obtain p where p: "correlation_coefficient X y None = Inr p"
    using ne ly by (simp add: correlation_coefficient_eq Let_def ones_def sum_list_replicate)
  obtain r where r: "coefficient_of_determination X y (np_poly1d coeffs) None = Inr r"
    using cod_value [of y X "np_poly1d coeffs" None, OF ly _ nz] by simp
  have "generate_polynomial_trendline lstsq X y None degree = Inr (np_poly1d coeffs, p, r)"
    by (simp add: generate_polynomial_trendline_def generate_trendline_metrics_def
        compute_weights_eq fit p r)
  with p r show "\<exists>p r. correlation_coefficient X y None = Inr p
           \<and> coefficient_of_determination X y (np_poly1d coeffs) None = Inr r
           \<and> generate_polynomial_trendline lstsq X y None degree = Inr (np_poly1d coeffs, p, r)"
    by blast
qed

theorem polynomial_trendline_result_witness:
  "generate_polynomial_trendline (const_solver [2, 0]) [1, 3] [2, 6] None (- 1) = Inl ValueError_polyfit_deg
   \<and> generate_polynomial_trendline (const_solver [2, 0]) [] [] None 1 = Inl TypeError_polyfit_empty
   \<and> generate_polynomial_trendline (const_solver [2, 0]) [1, 3] [2] None 1 = Inl TypeError_polyfit_length
   \<and> generate_polynomial_trendline failing_solver [0, 0] [1, 2] None 1 = Inl LinAlgError_lstsq
   \<and> (\<exists>p r. correlation_coefficient [1, 2] [7, 8] None = Inr p
         \<and> coefficient_of_determination [1, 2] [7, 8] (np_poly1d [1, 2, 3, 4]) None = Inr r
         \<and> generate_polynomial_trendline (const_solver [1, 2, 3, 4]) [1, 2] [7, 8] None 3
             = Inr (np_poly1d [1, 2, 3, 4], p, r))"
proof -
  have 1: "generate_polynomial_trendline (const_solver [2, 0]) [1, 3] [2, 6] None (- 1) = Inl ValueError_polyfit_deg"
    using polynomial_trendline_result [of "- 1" "const_solver [2, 0]" "[1, 3]" "[2, 6]"] by simp
  have 2: "generate_polynomial_trendline (const_solver [2, 0]) [] [] None 1 = Inl TypeError_polyfit_empty"
    using polynomial_trendline_result [of 1 "const_solver [2, 0]" "[]" "[]"] by simp
  have 3: "generate_polynomial_trendline (const_solver [2, 0]) [1, 3] [2] None 1 = Inl TypeError_polyfit_length"
    using polynomial_trendline_result [of 1 "const_solver [2, 0]" "[1, 3]" "[2]"] by simp
  have 4: "generate_polynomial_trendline failing_solver [0, 0] [1, 2] None 1 = Inl LinAlgError_lstsq"
    using polynomial_trendline_result [of 1 failing_solver "[0, 0]" "[1, 2]" LinAlgError_lstsq] by (simp add: failing_solver_def)
  have 5: "\<exists>p r. correlation_coefficient [1, 2] [7, 8] None = Inr p
         \<and> coefficient_of_determination [1, 2] [7, 8] (np_poly1d [1, 2, 3, 4]) None = Inr r
         \<and> generate_polynomial_trendline (const_solver [1, 2, 3, 4]) [1, 2] [7, 8] None 3
             = Inr (np_poly1d [1, 2, 3, 4], p, r)"
    using polynomial_trendline_result [of 3 "const_solver [1, 2, 3, 4]" "[1, 2]" "[7, 8]" e "[1, 2, 3, 4]"]
    by (simp add: const_solver_def)
  from 1 2 3 4 5 show ?thesis by blast
qed

text \<open>
  Claim C7, as stated: a failing curve fit is surfaced as a per-column result, and the
  driver goes on with the remaining columns. With two columns and a curve fit that
  fails, the loop ends at the first column with the RuntimeError uncaught: the scatter
  and the linear trendline of column \<open>a\<close> are plotted, nothing is logged, and column \<open>b\<close>
  is never reached.
\<close>

theorem curve_fit_failure_counterexample:
  "plot_columns (const_solver [2, 0]) failing_curve_fit log_model [1, 3] []
     [(''a'', [2, 6]), (''b'', [6, 2])]
   = ([Scatter [1, 3] [2, 6], Plot [1, 3] [2, 6] ''a (linear)''], Some RuntimeError_curve_fit)"
proof -
  have g: "generate_curve_fit failing_curve_fit [1, 3] [2, 6] log_model None
             = Inl RuntimeError_curve_fit"
    by (simp add: generate_curve_fit_def compute_weights_eq failing_curve_fit_def)
  show ?thesis
    by (simp add: linear_fit_example g Let_def np_poly1d_def)
qed

text \<open>
  Claim C7, amended. When \<^verbatim>\<open>curve_fit\<close> raises on a column's data,
  \<open>generate_curve_fit\<close> raises the same exception, and the plotting loop ends there with
  that exception uncaught, after the column's scatter plot and linear trendline; the
  columns after it are not processed.
\<close>

theorem curve_fit_failure_aborts:
  assumes "generate_polynomial_trendline lstsq X y None 1 = Inr (trendline, p, rsquared)"
    and "curve_fit f X y None False = Inl e"
  shows "generate_curve_fit curve_fit X y f None = Inl e
         \<and> plot_columns lstsq curve_fit f X evs ((column, y) # rest) =
             (evs @ [Scatter X y, Plot (sort X) (trendline (sort X)) (column @ '' (linear)'')],
              Some e)"
proof -
  have g: "generate_curve_fit curve_fit X y f None = Inl e"
    using assms(2) by (simp add: generate_curve_fit_def compute_weights_eq)
  then show ?thesis
    using assms(1) by (simp add: Let_def)
qed

theorem curve_fit_failure_aborts_witness:
  "generate_curve_fit failing_curve_fit [1, 3] [2, 6] log_model None = Inl RuntimeError_curve_fit
   \<and> plot_columns (const_solver [2, 0]) failing_curve_fit log_model [1, 3] [] [(''c'', [2, 6])]
       = ([Scatter [1, 3] [2, 6], Plot (sort [1, 3]) (np_poly1d [2, 0] (sort [1, 3])) ''c (linear)''],
          Some RuntimeError_curve_fit)"
proof -
  have f: "failing_curve_fit log_model [1, 3] [2, 6] None False = Inl RuntimeError_curve_fit"
    by (simp add: failing_curve_fit_def)
  from curve_fit_failure_aborts [of "const_solver [2, 0]" "[1, 3]" "[2, 6]" "np_poly1d [2, 0]" "Finite 1" "Finite 1"
      failing_curve_fit log_model RuntimeError_curve_fit "[]" "''c''" "[]",
      OF linear_fit_example f]
  show ?thesis
    by simp
qed

section \<open>Start-up and aggregation\<close>

text \<open>
  Claim C5: the program logs an error and exits with code 1 exactly when the path does
  not exist or is not a file. The guard is \<^verbatim>\<open>not (is_file() or exists())\<close>, which is
  false for everything that exists. For a directory, which is not a file, nothing is
  logged and the script does not exit there: it goes on to \<^verbatim>\<open>pd.read_csv\<close>.
\<close>

theorem check_input_directory:
  "\<not> is_file Directory \<and> check_input Directory = ([], None)"
  by (simp add: check_input_def is_file_def path_exists_def)

text \<open>
  Claim C4: a non-empty cell contributes, per column, the sum of the column's values over
  the rows whose coordinates match a point of the cell. With two rows at the same
  coordinates, of values 10 and 20, the cell holds two equal points, each point selects
  both rows, and the cell's total is 60 where the rows sum to 30.
\<close>

theorem aggregate_duplicate_coordinates:
  "aggregate [Row 1 1 [''v'' \<mapsto> 10], Row 1 1 [''v'' \<mapsto> 20]] [''v'']
     [[[Point 1 1, Point 1 1]]] 1 1
   = Inr ([2], [(''v'', [60])])
   \<and> rows_total [Row 1 1 [''v'' \<mapsto> 10], Row 1 1 [''v'' \<mapsto> 20]] ''v'' [Point 1 1, Point 1 1] = 30"
  by (simp add: aggregate_def cell_indices_def visit_cell_def chunk_at_def add_point_def
      select_rows_def nan_sum_def dict_keys_def dict_add_def dict_append_def rows_total_def)

end
